theory Spec2Isabelle
  imports Main "HOL-Library.Sublist"
begin

section \<open>Connection strings of the edge-config client\<close>

text \<open>
  The development covers \<^verbatim>\<open>packages/edge-config/src/utils/index.ts\<close>: the two
  recognizers \<^verbatim>\<open>parseVercelConnectionString\<close> and \<^verbatim>\<open>parseExternalConnectionString\<close>
  and their composition \<^verbatim>\<open>parseConnectionString\<close>.
\<close>

subsection \<open>The Connection value\<close>

datatype ConnectionType = vercel | external

text \<open>
  The fields \<^verbatim>\<open>type\<close> and \<^verbatim>\<open>id\<close> of the source are written \<open>type'\<close> and \<open>id'\<close>
  (\<open>id\<close> is the identity function of HOL).
\<close>

record Connection =
  type' :: ConnectionType
  baseUrl :: string
  id' :: string
  version :: string
  token :: string

subsection \<open>The platform's URL object\<close>

text \<open>
  \<^verbatim>\<open>URL\<close> is a class of the JavaScript platform, not of the repository. A URL object is
  modelled by the components of the URL record of the URL Standard: the scheme (without
  the colon), the credentials, the serialized host (\<open>None\<close> for a null host), the port in
  decimal (\<open>None\<close> for the scheme's default port), the serialized path, whether the
  path is opaque (as in \<^verbatim>\<open>mailto:x\<close>, a URL without host whose path does not start
  with a slash), the query and the fragment (\<open>None\<close> for null), and the name-value list
  of its \<^verbatim>\<open>searchParams\<close> object.
\<close>

record URL =
  scheme :: string
  username :: string
  password :: string
  hostname :: "string option"
  port :: "string option"
  pathname :: string
  opaque_path :: bool
  query :: "string option"
  fragment :: "string option"
  searchParams :: "(string \<times> string) list"

text \<open>
  \<^verbatim>\<open>new URL(s)\<close> either returns a URL object or throws a \<^verbatim>\<open>TypeError\<close>. The parser of
  the URL Standard is not modelled: every function below takes it as its first argument
  \<open>new_URL\<close>, and every theorem holds for whatever parser is supplied.
\<close>

datatype exn = TypeError

type_synonym URL_parser = "string \<Rightarrow> exn + URL"

text \<open>The getters \<^verbatim>\<open>url.protocol\<close> and \<^verbatim>\<open>url.host\<close> (the host with the port, when there is one).\<close>

definition protocol :: "URL \<Rightarrow> string" where
  "protocol url = scheme url @ '':''"

definition host :: "URL \<Rightarrow> string" where
  "host url =
     (case hostname url of
        None \<Rightarrow> []
      | Some h \<Rightarrow> (case port url of None \<Rightarrow> h | Some p \<Rightarrow> h @ '':'' @ p))"

text \<open>\<^verbatim>\<open>url.searchParams.get(name)\<close>: the value of the first pair of that name, or null.\<close>

fun searchParams_get :: "(string \<times> string) list \<Rightarrow> string \<Rightarrow> string option" where
  "searchParams_get [] name = None"
| "searchParams_get ((k, v) # ps) name = (if k = name then Some v else searchParams_get ps name)"

text \<open>
  The assignment \<^verbatim>\<open>url.search = ''\<close>: the setter, given the empty string, sets the query to
  null, empties the list of the \<^verbatim>\<open>searchParams\<close> object and, when the path is opaque
  and the fragment is null, removes every trailing space from the path.
\<close>

fun strip_trailing_spaces :: "string \<Rightarrow> string" where
  "strip_trailing_spaces [] = []"
| "strip_trailing_spaces (x # xs) =
     (let r = strip_trailing_spaces xs
      in if x = CHR '' '' \<and> r = [] then [] else x # r)"

definition clear_search :: "URL \<Rightarrow> URL" where
  "clear_search url =
     (let url1 = url\<lparr>query := None, searchParams := []\<rparr>
      in if opaque_path url1 \<and> fragment url1 = None
         then url1\<lparr>pathname := strip_trailing_spaces (pathname url1)\<rparr>
         else url1)"

text \<open>
  \<^verbatim>\<open>url.toString()\<close> is the URL serializer of the URL Standard: the scheme and a colon;
  for a non-null host two slashes, the credentials followed by an at sign (when the
  username or the password is not empty), the host and the port; for a null host and a
  path that starts with two slashes the guard \<^verbatim>\<open>/.\<close>; then the path, the query after a
  question mark and the fragment after a number sign, each only when it is not null.
\<close>

definition credentials :: "URL \<Rightarrow> string" where
  "credentials url =
     (if username url = [] \<and> password url = [] then []
      else username url @ (if password url = [] then [] else '':'' @ password url) @ ''@'')"

definition authority :: "URL \<Rightarrow> string" where
  "authority url =
     (case hostname url of
        Some h \<Rightarrow> ''//'' @ credentials url @ h @ (case port url of None \<Rightarrow> [] | Some p \<Rightarrow> '':'' @ p)
      | None \<Rightarrow> (if prefix ''//'' (pathname url) then ''/.'' else []))"

definition toString :: "URL \<Rightarrow> string" where
  "toString url =
     scheme url @ '':'' @ authority url @ pathname url
       @ (case query url of None \<Rightarrow> [] | Some q \<Rightarrow> ''?'' @ q)
       @ (case fragment url of None \<Rightarrow> [] | Some f \<Rightarrow> ''#'' @ f)"

subsection \<open>String and array operations of JavaScript\<close>

text \<open>
  A JavaScript string is modelled by a \<open>string\<close>, one \<open>char\<close> for each code unit: the
  code compares strings with literals of ASCII characters, tests them for emptiness and
  splits them at the slash, and nothing below depends on the width of a code unit.
\<close>

text \<open>\<^verbatim>\<open>s.startsWith(p)\<close>.\<close>

definition startsWith :: "string \<Rightarrow> string \<Rightarrow> bool" where
  "startsWith s p = prefix p s"

text \<open>
  \<^verbatim>\<open>s.split(c)\<close> for a separator of one character: the pieces between the separators, so
  always at least one piece (the empty string splits into one empty piece).
\<close>

fun split_str :: "char \<Rightarrow> string \<Rightarrow> string list" where
  "split_str c [] = [[]]"
| "split_str c (x # xs) =
     (if x = c then [] # split_str c xs
      else (case split_str c xs of
              [] \<Rightarrow> [[x]]
            | piece # pieces \<Rightarrow> (x # piece) # pieces))"

text \<open>\<^verbatim>\<open>xs[i]\<close>: reading an array out of range gives \<^verbatim>\<open>undefined\<close>, here \<open>None\<close>.\<close>

fun at :: "'a list \<Rightarrow> nat \<Rightarrow> 'a option" where
  "at [] i = None"
| "at (x # xs) 0 = Some x"
| "at (x # xs) (Suc i) = at xs i"

text \<open>
  Truthiness of a value of type \<^verbatim>\<open>string | null | undefined\<close>: null, undefined and the
  empty string are falsy.
\<close>

fun truthy :: "string option \<Rightarrow> bool" where
  "truthy None = False"
| "truthy (Some s) = (s \<noteq> [])"

text \<open>\<^verbatim>\<open>a || b\<close> on such values.\<close>

definition or_else :: "string option \<Rightarrow> string option \<Rightarrow> string option" where
  "or_else a b = (if truthy a then a else b)"

subsection \<open>The vendor recognizer\<close>

text \<open>
  The body of the \<^verbatim>\<open>try\<close> block of \<^verbatim>\<open>parseVercelConnectionString\<close>: \<open>Inl\<close> is an
  exception leaving the block, \<open>Inr None\<close> is \<^verbatim>\<open>return null\<close>. The constants
  \<^verbatim>\<open>id\<close> and \<^verbatim>\<open>token\<close> of the source are \<open>id0\<close> and \<open>tkn\<close>; once both are known
  to be truthy they are the strings \<open>i\<close> and \<open>t\<close> (the last branch of the \<open>case\<close> is
  never reached).
\<close>

definition parseVercelConnectionString_try :: "URL_parser \<Rightarrow> string \<Rightarrow> exn + Connection option" where
  "parseVercelConnectionString_try new_URL text =
     (case new_URL text of
        Inl e \<Rightarrow> Inl e
      | Inr url \<Rightarrow>
          if host url \<noteq> ''edge-config.vercel.com'' then Inr None
          else if protocol url \<noteq> ''https:'' then Inr None
          else if \<not> startsWith (pathname url) ''/ecfg'' then Inr None
          else
            (let id0 = at (split_str CHR ''/'' (pathname url)) 1
             in if \<not> truthy id0 then Inr None
                else
                  (let tkn = searchParams_get (searchParams url) ''token''
                   in if \<not> truthy tkn \<or> tkn = Some [] then Inr None
                      else
                        (case (id0, tkn) of
                           (Some i, Some t) \<Rightarrow>
                             Inr (Some \<lparr>type' = vercel,
                                        baseUrl = ''https://edge-config.vercel.com/'' @ i,
                                        id' = i,
                                        version = ''1'',
                                        token = t\<rparr>)
                         | _ \<Rightarrow> Inr None))))"

text \<open>The \<^verbatim>\<open>catch\<close> clause turns every exception of the block into \<^verbatim>\<open>return null\<close>.\<close>

definition parseVercelConnectionString :: "URL_parser \<Rightarrow> string \<Rightarrow> exn + Connection option" where
  "parseVercelConnectionString new_URL text =
     (case parseVercelConnectionString_try new_URL text of
        Inl e \<Rightarrow> Inr None
      | Inr r \<Rightarrow> Inr r)"

subsection \<open>The external recognizer\<close>

text \<open>
  The body of the \<^verbatim>\<open>try\<close> block of \<^verbatim>\<open>parseExternalConnectionString\<close>. The variable
  \<^verbatim>\<open>id\<close> is assigned twice: \<open>id0\<close> is its value after line 118, \<open>id1\<close> its value after
  the conditional of lines 123 to 125. The object \<^verbatim>\<open>url\<close> is mutated once, by the
  assignment to \<^verbatim>\<open>url.search\<close>: \<open>url1\<close> is the object after it.
\<close>

definition parseExternalConnectionString_try :: "URL_parser \<Rightarrow> string \<Rightarrow> exn + Connection option" where
  "parseExternalConnectionString_try new_URL connectionString =
     (case new_URL connectionString of
        Inl e \<Rightarrow> Inl e
      | Inr url \<Rightarrow>
          (let id0 = searchParams_get (searchParams url) ''id'';
               tkn = searchParams_get (searchParams url) ''token'';
               ver = or_else (searchParams_get (searchParams url) ''version'') (Some ''1'');
               id1 = (if \<not> truthy id0 \<or> startsWith (pathname url) ''/ecfg_''
                      then or_else (at (split_str CHR ''/'' (pathname url)) 1) None
                      else id0)
           in if \<not> truthy id1 \<or> \<not> truthy tkn then Inr None
              else
                (let url1 = clear_search url
                 in case (id1, tkn, ver) of
                      (Some i, Some t, Some v) \<Rightarrow>
                        Inr (Some \<lparr>type' = external,
                                   baseUrl = toString url1,
                                   id' = i,
                                   version = v,
                                   token = t\<rparr>)
                    | _ \<Rightarrow> Inr None)))"

definition parseExternalConnectionString :: "URL_parser \<Rightarrow> string \<Rightarrow> exn + Connection option" where
  "parseExternalConnectionString new_URL connectionString =
     (case parseExternalConnectionString_try new_URL connectionString of
        Inl e \<Rightarrow> Inr None
      | Inr r \<Rightarrow> Inr r)"

subsection \<open>The composition\<close>

text \<open>
  \<^verbatim>\<open>parseConnectionString\<close> has no handler of its own: an exception of either call would
  leave it (\<open>Inl\<close>). The external recognizer is called only when the vendor recognizer
  returned null.
\<close>

definition parseConnectionString :: "URL_parser \<Rightarrow> string \<Rightarrow> exn + Connection option" where
  "parseConnectionString new_URL connectionString =
     (case parseVercelConnectionString new_URL connectionString of
        Inl e \<Rightarrow> Inl e
      | Inr (Some connection) \<Rightarrow> Inr (Some connection)
      | Inr None \<Rightarrow> parseExternalConnectionString new_URL connectionString)"


subsection \<open>The specification's wording of two properties\<close>

text \<open>
  The base URL as the specification words it: the input URL without its query,
  serialized as the scheme, the host and the path only.
\<close>

definition spec_baseUrl :: "URL \<Rightarrow> string" where
  "spec_baseUrl url = scheme url @ ''://'' @ host url @ pathname url"


subsection \<open>Parsed URLs used as concrete inputs\<close>

text \<open>
  The URL objects that the parser of the URL Standard returns on the strings used as
  concrete inputs below. All but the last have the scheme \<^verbatim>\<open>https\<close>, no credentials,
  the default port and a path that is not opaque; \<open>https_URL\<close> takes the host, the path,
  the query, the list of the \<^verbatim>\<open>searchParams\<close> object and the fragment. The last has the
  scheme \<^verbatim>\<open>foo\<close>, no host and the opaque path \<^verbatim>\<open>bar\<close> followed by a space.
\<close>

definition https_URL ::
  "string \<Rightarrow> string \<Rightarrow> string option \<Rightarrow> (string \<times> string) list \<Rightarrow> string option \<Rightarrow> URL" where
  "https_URL h p q ps f =
     \<lparr>scheme = ''https'', username = [], password = [], hostname = Some h, port = None,
      pathname = p, opaque_path = False, query = q, fragment = f, searchParams = ps\<rparr>"

definition sample_URLs :: "(string \<times> URL) list" where
  "sample_URLs =
     [(''https://edge-config.vercel.com/ecfg_abc?token=tkn123'',
         https_URL ''edge-config.vercel.com'' ''/ecfg_abc'' (Some ''token=tkn123'')
           [(''token'', ''tkn123'')] None),
      (''https://edge-config.vercel.com/ecfg_abc'',
         https_URL ''edge-config.vercel.com'' ''/ecfg_abc'' None [] None),
      (''https://edge-config.vercel.com/ecfg_abc/items?token=tkn123'',
         https_URL ''edge-config.vercel.com'' ''/ecfg_abc/items'' (Some ''token=tkn123'')
           [(''token'', ''tkn123'')] None),
      (''https://edge-config.vercel.com/ecfg_abc?id=ecfg_abc&token=tkn123&version=1'',
         https_URL ''edge-config.vercel.com'' ''/ecfg_abc''
           (Some ''id=ecfg_abc&token=tkn123&version=1'')
           [(''id'', ''ecfg_abc''), (''token'', ''tkn123''), (''version'', ''1'')] None),
      (''https://edge-config.vercel.com/ecfgtest?id=other&token=tkn123'',
         https_URL ''edge-config.vercel.com'' ''/ecfgtest'' (Some ''id=other&token=tkn123'')
           [(''id'', ''other''), (''token'', ''tkn123'')] None),
      (''https://edge-config.vercel.com/ecfgtest?token=tkn123'',
         https_URL ''edge-config.vercel.com'' ''/ecfgtest'' (Some ''token=tkn123'')
           [(''token'', ''tkn123'')] None),
      (''https://example.com/?id=abc123&token=tkn123'',
         https_URL ''example.com'' ''/'' (Some ''id=abc123&token=tkn123'')
           [(''id'', ''abc123''), (''token'', ''tkn123'')] None),
      (''https://example.com/?id=abc123&token=tkn123&version=1'',
         https_URL ''example.com'' ''/'' (Some ''id=abc123&token=tkn123&version=1'')
           [(''id'', ''abc123''), (''token'', ''tkn123''), (''version'', ''1'')] None),
      (''https://example.com/ecfg_xyz?id=ignored&token=tkn123'',
         https_URL ''example.com'' ''/ecfg_xyz'' (Some ''id=ignored&token=tkn123'')
           [(''id'', ''ignored''), (''token'', ''tkn123'')] None),
      (''https://example.com/ecfg_xyz?token=tkn123&version=2'',
         https_URL ''example.com'' ''/ecfg_xyz'' (Some ''token=tkn123&version=2'')
           [(''token'', ''tkn123''), (''version'', ''2'')] None),
      (''https://example.com/?id=&token=tkn123'',
         https_URL ''example.com'' ''/'' (Some ''id=&token=tkn123'')
           [(''id'', []), (''token'', ''tkn123'')] None),
      (''https://example.com/abc?id=&token=tkn123'',
         https_URL ''example.com'' ''/abc'' (Some ''id=&token=tkn123'')
           [(''id'', []), (''token'', ''tkn123'')] None),
      (''https://example.com/abc?token=tkn123#frag'',
         https_URL ''example.com'' ''/abc'' (Some ''token=tkn123'')
           [(''token'', ''tkn123'')] (Some ''frag'')),
      (''https://example.com/abc#frag?id=abc&token=tkn123&version=1'',
         https_URL ''example.com'' ''/abc'' None []
           (Some ''frag?id=abc&token=tkn123&version=1'')),
      (''foo:bar ?id=a&token=t'',
         \<lparr>scheme = ''foo'', username = [], password = [], hostname = None, port = None,
          pathname = ''bar '', opaque_path = True, query = Some ''id=a&token=t'',
          fragment = None, searchParams = [(''id'', ''a''), (''token'', ''t'')]\<rparr>)]"

text \<open>
  A parser that agrees with the platform's on the strings of the table. Every other
  string is answered like \<^verbatim>\<open>not a url\<close>, on which the platform's parser throws: the
  theorems below apply it to that string and to the strings of the table only.
\<close>

definition new_URL_sample :: URL_parser where
  "new_URL_sample s = (case map_of sample_URLs s of None \<Rightarrow> Inl TypeError | Some url \<Rightarrow> Inr url)"

section \<open>Properties\<close>

subsection \<open>Auxiliary facts\<close>

lemma parseVercel_of_throw:
  "new_URL s = Inl e \<Longrightarrow> parseVercelConnectionString new_URL s = Inr None"
  by (simp add: parseVercelConnectionString_def parseVercelConnectionString_try_def)

lemma parseExternal_of_throw:
  "new_URL s = Inl e \<Longrightarrow> parseExternalConnectionString new_URL s = Inr None"
  by (simp add: parseExternalConnectionString_def parseExternalConnectionString_try_def)

lemma parseVercel_of_url:
  "new_URL s = Inr url \<Longrightarrow>
   parseVercelConnectionString new_URL s =
     (if host url = ''edge-config.vercel.com'' \<and> protocol url = ''https:''
         \<and> startsWith (pathname url) ''/ecfg''
      then (case at (split_str CHR ''/'' (pathname url)) 1 of
              None \<Rightarrow> Inr None
            | Some i \<Rightarrow>
               (case searchParams_get (searchParams url) ''token'' of
                  None \<Rightarrow> Inr None
                | Some t \<Rightarrow>
                    if i = [] then Inr None
                    else if t = [] then Inr None
                    else Inr (Some \<lparr>type' = vercel,
                                    baseUrl = ''https://edge-config.vercel.com/'' @ i,
                                    id' = i, version = ''1'', token = t\<rparr>)))
      else Inr None)"
  by (auto simp add: parseVercelConnectionString_def parseVercelConnectionString_try_def
      Let_def split: option.splits)

lemma parseExternal_of_url:
  "new_URL s = Inr url \<Longrightarrow>
   parseExternalConnectionString new_URL s =
     (case (if truthy (searchParams_get (searchParams url) ''id'')
               \<and> \<not> startsWith (pathname url) ''/ecfg_''
            then searchParams_get (searchParams url) ''id''
            else at (split_str CHR ''/'' (pathname url)) 1) of
        None \<Rightarrow> Inr None
      | Some i \<Rightarrow>
         (case searchParams_get (searchParams url) ''token'' of
            None \<Rightarrow> Inr None
          | Some t \<Rightarrow>
              if i = [] then Inr None
              else if t = [] then Inr None
              else Inr (Some \<lparr>type' = external,
                              baseUrl = toString (clear_search url),
                              id' = i,
                              version = (case searchParams_get (searchParams url) ''version'' of
                                           None \<Rightarrow> ''1''
                                         | Some v \<Rightarrow> if v = [] then ''1'' else v),
                              token = t\<rparr>)))"
  by (auto simp add: parseExternalConnectionString_def parseExternalConnectionString_try_def
      or_else_def Let_def split: option.splits)

lemma sample_vendor:
  "new_URL_sample ''https://edge-config.vercel.com/ecfg_abc?token=tkn123'' =
     Inr (https_URL ''edge-config.vercel.com'' ''/ecfg_abc'' (Some ''token=tkn123'')
           [(''token'', ''tkn123'')] None)"
  by (simp add: new_URL_sample_def sample_URLs_def)


lemma sample_external:
  "new_URL_sample ''https://example.com/?id=abc123&token=tkn123'' =
     Inr (https_URL ''example.com'' ''/'' (Some ''id=abc123&token=tkn123'')
           [(''id'', ''abc123''), (''token'', ''tkn123'')] None)"
  by (simp add: new_URL_sample_def sample_URLs_def)

lemma sample_not_a_url: "new_URL_sample ''not a url'' = Inl TypeError"
  by (simp add: new_URL_sample_def sample_URLs_def)

lemma sample_vendor_no_token:
  "new_URL_sample ''https://edge-config.vercel.com/ecfg_abc'' =
     Inr (https_URL ''edge-config.vercel.com'' ''/ecfg_abc'' None [] None)"
  by (simp add: new_URL_sample_def sample_URLs_def)

lemma sample_vendor_ecfgtest:
  "new_URL_sample ''https://edge-config.vercel.com/ecfgtest?token=tkn123'' =
     Inr (https_URL ''edge-config.vercel.com'' ''/ecfgtest'' (Some ''token=tkn123'')
           [(''token'', ''tkn123'')] None)"
  by (simp add: new_URL_sample_def sample_URLs_def)



lemma sample_external_empty_id:
  "new_URL_sample ''https://example.com/abc?id=&token=tkn123'' =
     Inr (https_URL ''example.com'' ''/abc'' (Some ''id=&token=tkn123'')
           [(''id'', []), (''token'', ''tkn123'')] None)"
  by (simp add: new_URL_sample_def sample_URLs_def)

lemma sample_external_empty_id_root:
  "new_URL_sample ''https://example.com/?id=&token=tkn123'' =
     Inr (https_URL ''example.com'' ''/'' (Some ''id=&token=tkn123'')
           [(''id'', []), (''token'', ''tkn123'')] None)"
  by (simp add: new_URL_sample_def sample_URLs_def)

text \<open>The first piece of a split is what precedes the first separator.\<close>

lemma at_split_str_0: "at (split_str c xs) 0 = Some (takeWhile (\<lambda>x. x \<noteq> c) xs)"
  by (induction xs) (auto split: list.splits)


text \<open>Removing every pair of one name from a list of parameters.\<close>

lemma searchParams_get_removed:
  "searchParams_get (filter (\<lambda>p. fst p \<noteq> n) ps) n = None"
  by (induction ps) auto

lemma searchParams_get_other:
  "m \<noteq> n \<Longrightarrow> searchParams_get (filter (\<lambda>p. fst p \<noteq> n) ps) m = searchParams_get ps m"
  by (induction ps) auto

lemma sample_vendor_items:
  "new_URL_sample ''https://edge-config.vercel.com/ecfg_abc/items?token=tkn123'' =
     Inr (https_URL ''edge-config.vercel.com'' ''/ecfg_abc/items'' (Some ''token=tkn123'')
           [(''token'', ''tkn123'')] None)"
  by (simp add: new_URL_sample_def sample_URLs_def)



lemma sample_fragment:
  "new_URL_sample ''https://example.com/abc?token=tkn123#frag'' =
     Inr (https_URL ''example.com'' ''/abc'' (Some ''token=tkn123'')
           [(''token'', ''tkn123'')] (Some ''frag''))"
  by (simp add: new_URL_sample_def sample_URLs_def)




lemma sample_vendor_ecfgtest_id:
  "new_URL_sample ''https://edge-config.vercel.com/ecfgtest?id=other&token=tkn123'' =
     Inr (https_URL ''edge-config.vercel.com'' ''/ecfgtest'' (Some ''id=other&token=tkn123'')
           [(''id'', ''other''), (''token'', ''tkn123'')] None)"
  by (simp add: new_URL_sample_def sample_URLs_def)

lemma sample_opaque:
  "new_URL_sample ''foo:bar ?id=a&token=t'' =
     Inr \<lparr>scheme = ''foo'', username = [], password = [], hostname = None, port = None,
          pathname = ''bar '', opaque_path = True, query = Some ''id=a&token=t'',
          fragment = None, searchParams = [(''id'', ''a''), (''token'', ''t'')]\<rparr>"
  by (simp add: new_URL_sample_def sample_URLs_def)

text \<open>Removing trailing spaces does not change whether a path starts with two slashes.\<close>

lemma prefix_slashes_strip:
  "prefix ''//'' (strip_trailing_spaces p) \<longleftrightarrow> prefix ''//'' p"
proof (cases p)
  case Nil
  then show ?thesis by simp
next
  case (Cons x q)
  then show ?thesis
    by (cases q) (auto simp add: Let_def)
qed

lemma authority_clear_search: "authority (clear_search url) = authority url"
  by (simp add: authority_def clear_search_def credentials_def Let_def prefix_slashes_strip
      split: option.splits)

lemmas URL_getters = https_URL_def host_def protocol_def startsWith_def clear_search_def Let_def
  toString_def authority_def credentials_def

subsection \<open>Precedence of the vendor recognizer\<close>

text \<open>
  C1. \<^verbatim>\<open>parseConnectionString\<close> returns the Connection of the vendor recognizer whenever
  that recognizer returns one, and the result of the external recognizer whenever the
  vendor recognizer returns null; the vendor recognizer never does anything else. A string
  that both recognizers accept is therefore answered with the vendor recognizer's
  Connection, whose type is \<open>vercel\<close> and not \<open>external\<close>.
\<close>

theorem parseConnectionString_vendor_first:
  "(\<forall>c. parseVercelConnectionString new_URL s = Inr (Some c)
        \<longrightarrow> parseConnectionString new_URL s = Inr (Some c))
   \<and> (parseVercelConnectionString new_URL s = Inr None
        \<longrightarrow> parseConnectionString new_URL s = parseExternalConnectionString new_URL s)
   \<and> (\<exists>r. parseVercelConnectionString new_URL s = Inr r)
   \<and> (\<forall>c d. parseVercelConnectionString new_URL s = Inr (Some c)
            \<and> parseExternalConnectionString new_URL s = Inr (Some d)
        \<longrightarrow> parseConnectionString new_URL s = Inr (Some c)
            \<and> type' c = vercel \<and> type' c \<noteq> external)"
proof (cases "new_URL s")
  case (Inl e)
  then show ?thesis
    by (simp add: parseConnectionString_def parseVercel_of_throw)
next
  case (Inr url)
  have vendor_type: "type' c = vercel"
    if "parseVercelConnectionString new_URL s = Inr (Some c)" for c
    using that by (auto simp add: parseVercel_of_url [where new_URL = new_URL, OF Inr] split: if_splits option.splits)
  show ?thesis
    using vendor_type
    by (auto simp add: parseConnectionString_def parseVercel_of_url [where new_URL = new_URL, OF Inr]
        split: option.splits)
qed

theorem parseConnectionString_vendor_first_witness:
  "parseVercelConnectionString new_URL_sample ''https://edge-config.vercel.com/ecfg_abc?token=tkn123''
     = Inr (Some \<lparr>type' = vercel, baseUrl = ''https://edge-config.vercel.com/ecfg_abc'',
                  id' = ''ecfg_abc'', version = ''1'', token = ''tkn123''\<rparr>)
   \<and> parseExternalConnectionString new_URL_sample ''https://edge-config.vercel.com/ecfg_abc?token=tkn123''
     = Inr (Some \<lparr>type' = external, baseUrl = ''https://edge-config.vercel.com/ecfg_abc'',
                  id' = ''ecfg_abc'', version = ''1'', token = ''tkn123''\<rparr>)
   \<and> parseConnectionString new_URL_sample ''https://edge-config.vercel.com/ecfg_abc?token=tkn123''
     = Inr (Some \<lparr>type' = vercel, baseUrl = ''https://edge-config.vercel.com/ecfg_abc'',
                  id' = ''ecfg_abc'', version = ''1'', token = ''tkn123''\<rparr>)
   \<and> parseVercelConnectionString new_URL_sample ''https://example.com/?id=abc123&token=tkn123''
     = Inr None
   \<and> parseConnectionString new_URL_sample ''https://example.com/?id=abc123&token=tkn123''
     = parseExternalConnectionString new_URL_sample ''https://example.com/?id=abc123&token=tkn123''"
proof -
  have v: "parseVercelConnectionString new_URL_sample
             ''https://edge-config.vercel.com/ecfg_abc?token=tkn123''
           = Inr (Some \<lparr>type' = vercel, baseUrl = ''https://edge-config.vercel.com/ecfg_abc'',
                        id' = ''ecfg_abc'', version = ''1'', token = ''tkn123''\<rparr>)"
    by (simp add: parseVercel_of_url [where new_URL = new_URL_sample, OF sample_vendor] URL_getters)
  have x: "parseExternalConnectionString new_URL_sample
             ''https://edge-config.vercel.com/ecfg_abc?token=tkn123''
           = Inr (Some \<lparr>type' = external, baseUrl = ''https://edge-config.vercel.com/ecfg_abc'',
                        id' = ''ecfg_abc'', version = ''1'', token = ''tkn123''\<rparr>)"
    by (simp add: parseExternal_of_url [where new_URL = new_URL_sample, OF sample_vendor] URL_getters)
  have n: "parseVercelConnectionString new_URL_sample
             ''https://example.com/?id=abc123&token=tkn123'' = Inr None"
    by (simp add: parseVercel_of_url [where new_URL = new_URL_sample, OF sample_external] URL_getters)
  show ?thesis
    using v x n
      parseConnectionString_vendor_first
        [of new_URL_sample "''https://edge-config.vercel.com/ecfg_abc?token=tkn123''"]
      parseConnectionString_vendor_first
        [of new_URL_sample "''https://example.com/?id=abc123&token=tkn123''"]
    by simp
qed

subsection \<open>No exception, and null for what the URL parser rejects\<close>

text \<open>
  C4. \<^verbatim>\<open>parseConnectionString\<close> never raises: for every parser and every string its
  outcome is a returned value (a Connection or null), never an exception; and on every
  string that the URL parser rejects (on which \<^verbatim>\<open>new URL\<close> throws) it returns null.
\<close>

theorem parseConnectionString_never_throws:
  "(\<exists>r. parseConnectionString new_URL s = Inr r)
   \<and> (\<forall>e. new_URL s = Inl e \<longrightarrow> parseConnectionString new_URL s = Inr None)"
proof (cases "new_URL s")
  case (Inl e)
  then show ?thesis
    by (simp add: parseConnectionString_def parseVercel_of_throw parseExternal_of_throw)
next
  case (Inr url)
  then show ?thesis
    by (simp add: parseConnectionString_def parseVercel_of_url [where new_URL = new_URL, OF Inr]
        parseExternal_of_url [where new_URL = new_URL, OF Inr] split: option.splits)
qed

theorem parseConnectionString_never_throws_witness:
  "new_URL_sample ''not a url'' = Inl TypeError
   \<and> parseConnectionString new_URL_sample ''not a url'' = Inr None"
  using parseConnectionString_never_throws [of new_URL_sample "''not a url''"] sample_not_a_url
  by simp

subsection \<open>Identifier and token are never empty\<close>

text \<open>
  C5. Whenever \<^verbatim>\<open>parseConnectionString\<close> returns a Connection, its \<^verbatim>\<open>id\<close> and its
  \<^verbatim>\<open>token\<close> are non-empty strings.
\<close>

theorem parseConnectionString_id_token_nonempty:
  assumes "parseConnectionString new_URL s = Inr (Some c)"
  shows "id' c \<noteq> [] \<and> token c \<noteq> []"
proof (cases "new_URL s")
  case (Inl e)
  with assms show ?thesis
    by (simp add: parseConnectionString_def parseVercel_of_throw parseExternal_of_throw)
next
  case (Inr url)
  with assms show ?thesis
    by (auto simp add: parseConnectionString_def parseVercel_of_url [where new_URL = new_URL, OF Inr]
        parseExternal_of_url [where new_URL = new_URL, OF Inr] split: option.splits if_splits)
qed

theorem parseConnectionString_id_token_nonempty_witness:
  "parseConnectionString new_URL_sample ''https://example.com/?id=abc123&token=tkn123''
     = Inr (Some \<lparr>type' = external, baseUrl = ''https://example.com/'',
                  id' = ''abc123'', version = ''1'', token = ''tkn123''\<rparr>)
   \<and> id' \<lparr>type' = external, baseUrl = ''https://example.com/'',
          id' = ''abc123'', version = ''1'', token = ''tkn123''\<rparr> \<noteq> []
   \<and> token \<lparr>type' = external, baseUrl = ''https://example.com/'',
          id' = ''abc123'', version = ''1'', token = ''tkn123''\<rparr> \<noteq> []"
proof -
  have r: "parseConnectionString new_URL_sample ''https://example.com/?id=abc123&token=tkn123''
     = Inr (Some \<lparr>type' = external, baseUrl = ''https://example.com/'',
                  id' = ''abc123'', version = ''1'', token = ''tkn123''\<rparr>)"
    by (simp add: parseConnectionString_def parseVercel_of_url [where new_URL = new_URL_sample, OF sample_external]
        parseExternal_of_url [where new_URL = new_URL_sample, OF sample_external] URL_getters)
  from parseConnectionString_id_token_nonempty [OF r] r show ?thesis
    by simp
qed


subsection \<open>What the vendor recognizer accepts\<close>

text \<open>
  C2. The vendor recognizer returns a Connection exactly when the string parses as a URL
  whose scheme is \<^verbatim>\<open>https\<close>, whose host is \<^verbatim>\<open>edge-config.vercel.com\<close>, whose path
  starts with \<^verbatim>\<open>/ecfg\<close>, whose first path segment is not empty and whose \<^verbatim>\<open>token\<close>
  parameter (as \<^verbatim>\<open>searchParams.get\<close> reads it) is present and not empty. The Connection
  then has the type \<open>vercel\<close>, the vendor origin followed by a slash and the segment as
  \<^verbatim>\<open>baseUrl\<close>, the segment as \<^verbatim>\<open>id\<close>, that token, and the version \<^verbatim>\<open>1\<close> whatever the
  parameters of the input say. In every other case the recognizer returns null.
\<close>

theorem parseVercelConnectionString_accepts_iff:
  "((\<exists>c. parseVercelConnectionString new_URL s = Inr (Some c))
      \<longleftrightarrow> (\<exists>url i t. new_URL s = Inr url \<and> scheme url = ''https''
             \<and> host url = ''edge-config.vercel.com''
             \<and> startsWith (pathname url) ''/ecfg''
             \<and> at (split_str CHR ''/'' (pathname url)) 1 = Some i \<and> i \<noteq> []
             \<and> searchParams_get (searchParams url) ''token'' = Some t \<and> t \<noteq> []))
   \<and> (\<forall>url i t. new_URL s = Inr url \<and> scheme url = ''https''
             \<and> host url = ''edge-config.vercel.com''
             \<and> startsWith (pathname url) ''/ecfg''
             \<and> at (split_str CHR ''/'' (pathname url)) 1 = Some i \<and> i \<noteq> []
             \<and> searchParams_get (searchParams url) ''token'' = Some t \<and> t \<noteq> []
        \<longrightarrow> parseVercelConnectionString new_URL s =
              Inr (Some \<lparr>type' = vercel,
                         baseUrl = ''https://edge-config.vercel.com'' @ ''/'' @ i,
                         id' = i, version = ''1'', token = t\<rparr>))
   \<and> ((\<nexists>c. parseVercelConnectionString new_URL s = Inr (Some c))
        \<longrightarrow> parseVercelConnectionString new_URL s = Inr None)"
proof (cases "new_URL s")
  case (Inl e)
  then show ?thesis
    by (simp add: parseVercel_of_throw)
next
  case (Inr url)
  have p: "protocol url = ''https:'' \<longleftrightarrow> scheme url = ''https''"
    by (simp add: protocol_def)
  show ?thesis
    by (auto simp add: parseVercel_of_url [where new_URL = new_URL, OF Inr] Inr p
        split: option.splits)
qed

theorem parseVercelConnectionString_accepts_iff_witness:
  "parseVercelConnectionString new_URL_sample
      ''https://edge-config.vercel.com/ecfg_abc?token=tkn123''
     = Inr (Some \<lparr>type' = vercel, baseUrl = ''https://edge-config.vercel.com/ecfg_abc'',
                  id' = ''ecfg_abc'', version = ''1'', token = ''tkn123''\<rparr>)
   \<and> parseVercelConnectionString new_URL_sample ''https://edge-config.vercel.com/ecfg_abc''
     = Inr None"
proof -
  have n: "\<nexists>c. parseVercelConnectionString new_URL_sample
                ''https://edge-config.vercel.com/ecfg_abc'' = Inr (Some c)"
    using parseVercelConnectionString_accepts_iff
      [of new_URL_sample "''https://edge-config.vercel.com/ecfg_abc''"]
    by (simp add: sample_vendor_no_token https_URL_def)
  have e: "parseVercelConnectionString new_URL_sample
             ''https://edge-config.vercel.com/ecfg_abc'' = Inr None"
    using n
      parseVercelConnectionString_accepts_iff
        [of new_URL_sample "''https://edge-config.vercel.com/ecfg_abc''"]
    by blast
  have a: "parseVercelConnectionString new_URL_sample
             ''https://edge-config.vercel.com/ecfg_abc?token=tkn123''
           = Inr (Some \<lparr>type' = vercel, baseUrl = ''https://edge-config.vercel.com/ecfg_abc'',
                        id' = ''ecfg_abc'', version = ''1'', token = ''tkn123''\<rparr>)"
    using parseVercelConnectionString_accepts_iff
        [of new_URL_sample "''https://edge-config.vercel.com/ecfg_abc?token=tkn123''"]
    by (simp add: sample_vendor URL_getters)
  from a e show ?thesis
    by (rule conjI)
qed

subsection \<open>Where the external recognizer takes the identifier from\<close>



subsection \<open>The version of an external Connection\<close>




subsection \<open>An empty id parameter\<close>

text \<open>
  C9. In the external recognizer an \<^verbatim>\<open>id\<close> parameter that is present but empty counts as
  an absent one. For a URL with an empty \<^verbatim>\<open>id\<close> parameter the recognizer returns what
  it returns for the same URL without any \<^verbatim>\<open>id\<close> parameter; with a non-empty first path
  segment and a non-empty token it returns a Connection whose identifier is that segment;
  and with an empty or missing first path segment it returns null.
\<close>

theorem parseExternalConnectionString_empty_id:
  assumes "new_URL s = Inr url"
    and "searchParams_get (searchParams url) ''id'' = Some []"
  shows
    "parseExternalConnectionString new_URL s =
       parseExternalConnectionString
         (\<lambda>x. Inr (url\<lparr>searchParams := filter (\<lambda>p. fst p \<noteq> ''id'') (searchParams url)\<rparr>)) s
     \<and> (\<forall>seg t. at (split_str CHR ''/'' (pathname url)) 1 = Some seg \<and> seg \<noteq> []
               \<and> searchParams_get (searchParams url) ''token'' = Some t \<and> t \<noteq> []
          \<longrightarrow> (\<exists>c. parseExternalConnectionString new_URL s = Inr (Some c) \<and> id' c = seg))
     \<and> (\<not> truthy (at (split_str CHR ''/'' (pathname url)) 1)
          \<longrightarrow> parseExternalConnectionString new_URL s = Inr None)"
proof -
  let ?url' = "url\<lparr>searchParams := filter (\<lambda>p. fst p \<noteq> ''id'') (searchParams url)\<rparr>"
  let ?new_URL' = "\<lambda>x :: string. (Inr ?url' :: exn + URL)"
  have parsed: "?new_URL' s = Inr ?url'"
    by simp
  have same_string: "toString (clear_search ?url') = toString (clear_search url)"
    by (simp add: clear_search_def Let_def)
  have no_id: "searchParams_get (searchParams ?url') ''id'' = None"
    by (simp add: searchParams_get_removed)
  have same_token: "searchParams_get (searchParams ?url') ''token''
                      = searchParams_get (searchParams url) ''token''"
    by (simp add: searchParams_get_other)
  have same_version: "searchParams_get (searchParams ?url') ''version''
                        = searchParams_get (searchParams url) ''version''"
    by (simp add: searchParams_get_other)
  have same_path: "pathname ?url' = pathname url"
    by simp
  have absent: "parseExternalConnectionString new_URL s = parseExternalConnectionString ?new_URL' s"
    unfolding parseExternal_of_url [where new_URL = new_URL, OF assms(1)]
      parseExternal_of_url [where new_URL = ?new_URL', OF parsed]
      same_string no_id same_token same_version same_path assms(2)
    by simp
  have accepted: "\<exists>c. parseExternalConnectionString new_URL s = Inr (Some c) \<and> id' c = seg"
    if "at (split_str CHR ''/'' (pathname url)) 1 = Some seg" and "seg \<noteq> []"
      and "searchParams_get (searchParams url) ''token'' = Some t" and "t \<noteq> []" for seg t
    using that by (simp add: parseExternal_of_url [where new_URL = new_URL, OF assms(1)] assms(2))
  have rejected: "parseExternalConnectionString new_URL s = Inr None"
    if "\<not> truthy (at (split_str CHR ''/'' (pathname url)) 1)"
    using that
    by (cases "at (split_str CHR ''/'' (pathname url)) 1")
      (simp_all add: parseExternal_of_url [where new_URL = new_URL, OF assms(1)] assms(2)
        split: option.splits)
  from absent accepted rejected show ?thesis
    by blast
qed

theorem parseExternalConnectionString_empty_id_witness:
  "parseExternalConnectionString new_URL_sample ''https://example.com/abc?id=&token=tkn123''
     = Inr (Some \<lparr>type' = external, baseUrl = ''https://example.com/abc'',
                  id' = ''abc'', version = ''1'', token = ''tkn123''\<rparr>)
   \<and> parseExternalConnectionString new_URL_sample ''https://example.com/?id=&token=tkn123''
     = Inr None"
proof -
  have a: "\<exists>c. parseExternalConnectionString new_URL_sample
                 ''https://example.com/abc?id=&token=tkn123'' = Inr (Some c)
               \<and> id' c = ''abc''"
    using parseExternalConnectionString_empty_id
      [where new_URL = new_URL_sample, OF sample_external_empty_id, THEN conjunct2]
    by (simp add: https_URL_def)
  have b: "parseExternalConnectionString new_URL_sample
             ''https://example.com/?id=&token=tkn123'' = Inr None"
    using parseExternalConnectionString_empty_id
      [where new_URL = new_URL_sample, OF sample_external_empty_id_root, THEN conjunct2]
    by (simp add: https_URL_def)
  have c: "parseExternalConnectionString new_URL_sample
             ''https://example.com/abc?id=&token=tkn123''
           = Inr (Some \<lparr>type' = external, baseUrl = ''https://example.com/abc'',
                        id' = ''abc'', version = ''1'', token = ''tkn123''\<rparr>)"
    by (simp add: parseExternal_of_url [where new_URL = new_URL_sample, OF sample_external_empty_id]
        URL_getters)
  from a b c show ?thesis
    by simp
qed

subsection \<open>The two path prefixes\<close>

text \<open>
  C10. The vendor recognizer tests the path against \<^verbatim>\<open>/ecfg\<close>, the external recognizer
  against \<^verbatim>\<open>/ecfg_\<close>. For a URL with the scheme \<^verbatim>\<open>https\<close> and the vendor host (whose
  path, as that of every \<^verbatim>\<open>https\<close> URL, starts with a slash), a first path segment that
  starts with \<^verbatim>\<open>ecfg\<close> but not with \<^verbatim>\<open>ecfg_\<close> and a non-empty token, the result of
  \<^verbatim>\<open>parseConnectionString\<close> is the vendor Connection with that segment as identifier.
  The same path does not start with \<^verbatim>\<open>/ecfg_\<close> and does not trigger the override of
  the external recognizer: on the same string the external recognizer returns a
  Connection whose identifier is the \<^verbatim>\<open>id\<close> parameter whenever that parameter is
  present and not empty, and the path segment only when it is absent or empty.
\<close>

theorem parseConnectionString_ecfg_without_underscore:
  assumes parsed: "new_URL s = Inr url"
    and https: "scheme url = ''https''"
    and vendor_host: "host url = ''edge-config.vercel.com''"
    and rooted: "startsWith (pathname url) ''/''"
    and segment: "at (split_str CHR ''/'' (pathname url)) 1 = Some seg"
    and ecfg: "startsWith seg ''ecfg''"
    and no_underscore: "\<not> startsWith seg ''ecfg_''"
    and tkn: "searchParams_get (searchParams url) ''token'' = Some t"
    and nonempty: "t \<noteq> []"
  shows "parseConnectionString new_URL s =
           Inr (Some \<lparr>type' = vercel, baseUrl = ''https://edge-config.vercel.com/'' @ seg,
                      id' = seg, version = ''1'', token = t\<rparr>)
         \<and> \<not> startsWith (pathname url) ''/ecfg_''
         \<and> parseExternalConnectionString new_URL s =
           Inr (Some \<lparr>type' = external, baseUrl = toString (clear_search url),
                      id' = (case searchParams_get (searchParams url) ''id'' of
                               None \<Rightarrow> seg
                             | Some i \<Rightarrow> if i = [] then seg else i),
                      version = (case searchParams_get (searchParams url) ''version'' of
                                   None \<Rightarrow> ''1''
                                 | Some v \<Rightarrow> if v = [] then ''1'' else v),
                      token = t\<rparr>)"
proof -
  from rooted obtain rest where path: "pathname url = CHR ''/'' # rest"
    by (auto simp add: startsWith_def prefix_def)
  have seg_def: "seg = takeWhile (\<lambda>x. x \<noteq> CHR ''/'') rest"
    using segment by (simp add: path at_split_str_0)
  have "prefix ''ecfg'' rest"
    using ecfg takeWhile_is_prefix [of "\<lambda>x. x \<noteq> CHR ''/''" rest]
    unfolding startsWith_def seg_def by (rule prefix_order.trans)
  then have vendor_prefix: "startsWith (pathname url) ''/ecfg''"
    by (simp add: startsWith_def path)
  have seg_nonempty: "seg \<noteq> []"
    using ecfg by (auto simp add: startsWith_def)
  have no_override: "\<not> startsWith (pathname url) ''/ecfg_''"
  proof
    assume "startsWith (pathname url) ''/ecfg_''"
    then obtain r where "rest = ''ecfg_'' @ r"
      by (auto simp add: startsWith_def path prefix_def)
    then have "prefix ''ecfg_'' seg"
      by (simp add: seg_def)
    with no_underscore show False
      by (simp add: startsWith_def)
  qed
  have vendor_result: "parseVercelConnectionString new_URL s =
          Inr (Some \<lparr>type' = vercel, baseUrl = ''https://edge-config.vercel.com/'' @ seg,
                     id' = seg, version = ''1'', token = t\<rparr>)"
    using segment tkn
    by (simp add: parseVercel_of_url [where new_URL = new_URL, OF parsed] vendor_host
        protocol_def https vendor_prefix seg_nonempty nonempty)
  have external_result: "parseExternalConnectionString new_URL s =
           Inr (Some \<lparr>type' = external, baseUrl = toString (clear_search url),
                      id' = (case searchParams_get (searchParams url) ''id'' of
                               None \<Rightarrow> seg
                             | Some i \<Rightarrow> if i = [] then seg else i),
                      version = (case searchParams_get (searchParams url) ''version'' of
                                   None \<Rightarrow> ''1''
                                 | Some v \<Rightarrow> if v = [] then ''1'' else v),
                      token = t\<rparr>)"
    unfolding parseExternal_of_url [where new_URL = new_URL, OF parsed]
    using segment tkn no_override seg_nonempty nonempty
    by (cases "searchParams_get (searchParams url) ''id''") auto
  from vendor_result no_override external_result show ?thesis
    by (simp add: parseConnectionString_def)
qed

theorem parseConnectionString_ecfg_without_underscore_witness:
  "parseConnectionString new_URL_sample ''https://edge-config.vercel.com/ecfgtest?token=tkn123''
     = Inr (Some \<lparr>type' = vercel, baseUrl = ''https://edge-config.vercel.com/ecfgtest'',
                  id' = ''ecfgtest'', version = ''1'', token = ''tkn123''\<rparr>)
   \<and> \<not> startsWith ''/ecfgtest'' ''/ecfg_''
   \<and> parseConnectionString new_URL_sample
       ''https://edge-config.vercel.com/ecfgtest?id=other&token=tkn123''
     = Inr (Some \<lparr>type' = vercel, baseUrl = ''https://edge-config.vercel.com/ecfgtest'',
                  id' = ''ecfgtest'', version = ''1'', token = ''tkn123''\<rparr>)
   \<and> parseExternalConnectionString new_URL_sample
       ''https://edge-config.vercel.com/ecfgtest?id=other&token=tkn123''
     = Inr (Some \<lparr>type' = external, baseUrl = ''https://edge-config.vercel.com/ecfgtest'',
                  id' = ''other'', version = ''1'', token = ''tkn123''\<rparr>)"
  using parseConnectionString_ecfg_without_underscore
    [where new_URL = new_URL_sample, OF sample_vendor_ecfgtest, of "''ecfgtest''" "''tkn123''"]
    parseConnectionString_ecfg_without_underscore
    [where new_URL = new_URL_sample, OF sample_vendor_ecfgtest_id, of "''ecfgtest''" "''tkn123''"]
  by (simp add: URL_getters)

subsection \<open>The base URL\<close>

text \<open>
  C6 as the specification states it, refuted: the \<^verbatim>\<open>baseUrl\<close> is not always the scheme,
  the host and the path of the input URL. For the input
  \<^verbatim>\<open>https://example.com/abc?token=tkn123#frag\<close> the external recognizer removes the
  query and serializes the rest, fragment included:
  \<^verbatim>\<open>https://example.com/abc#frag\<close>.
\<close>

theorem baseUrl_keeps_fragment:
  "new_URL_sample ''https://example.com/abc?token=tkn123#frag''
     = Inr (https_URL ''example.com'' ''/abc'' (Some ''token=tkn123'')
             [(''token'', ''tkn123'')] (Some ''frag''))
   \<and> parseConnectionString new_URL_sample ''https://example.com/abc?token=tkn123#frag''
     = Inr (Some \<lparr>type' = external, baseUrl = ''https://example.com/abc#frag'',
                  id' = ''abc'', version = ''1'', token = ''tkn123''\<rparr>)
   \<and> spec_baseUrl (https_URL ''example.com'' ''/abc'' (Some ''token=tkn123'')
                     [(''token'', ''tkn123'')] (Some ''frag''))
     = ''https://example.com/abc''
   \<and> ''https://example.com/abc#frag'' \<noteq> ''https://example.com/abc''"
  by (simp add: sample_fragment parseConnectionString_def spec_baseUrl_def
      parseVercel_of_url [where new_URL = new_URL_sample, OF sample_fragment]
      parseExternal_of_url [where new_URL = new_URL_sample, OF sample_fragment] URL_getters)

text \<open>
  The vendor recognizer, for its part, keeps the first path segment only: the path
  \<^verbatim>\<open>/ecfg_abc/items\<close> of the input is not the path of the \<^verbatim>\<open>baseUrl\<close>.
\<close>

lemma baseUrl_vendor_drops_segments:
  "parseConnectionString new_URL_sample
      ''https://edge-config.vercel.com/ecfg_abc/items?token=tkn123''
     = Inr (Some \<lparr>type' = vercel, baseUrl = ''https://edge-config.vercel.com/ecfg_abc'',
                  id' = ''ecfg_abc'', version = ''1'', token = ''tkn123''\<rparr>)
   \<and> spec_baseUrl (https_URL ''edge-config.vercel.com'' ''/ecfg_abc/items''
                     (Some ''token=tkn123'') [(''token'', ''tkn123'')] None)
     = ''https://edge-config.vercel.com/ecfg_abc/items''"
  by (simp add: parseConnectionString_def spec_baseUrl_def
      parseVercel_of_url [where new_URL = new_URL_sample, OF sample_vendor_items] URL_getters)

text \<open>
  C6, amended. Whenever \<^verbatim>\<open>parseConnectionString\<close> returns a Connection for a parsed URL:
  the \<^verbatim>\<open>baseUrl\<close> of a vendor Connection is the vendor origin, a slash and the
  identifier, which is the first path segment of the input; the \<^verbatim>\<open>baseUrl\<close> of an
  external Connection is the serialization of the input URL after its query has been
  removed, that is the scheme, the authority (credentials, host and port), the path
  (without its trailing spaces when the path is opaque and the URL has no fragment) and,
  when the URL has one, the fragment after a number sign, with no question mark between
  path and fragment. For an external Connection from a URL with a host and a path that is
  not opaque, without credentials and without fragment, this is the scheme, the host and
  the path.
\<close>

theorem parseConnectionString_baseUrl:
  assumes "new_URL s = Inr url"
    and "parseConnectionString new_URL s = Inr (Some c)"
  shows
    "(type' c = vercel \<longrightarrow>
        baseUrl c = ''https://edge-config.vercel.com/'' @ id' c
        \<and> at (split_str CHR ''/'' (pathname url)) 1 = Some (id' c))
     \<and> (type' c = external \<longrightarrow>
        baseUrl c = toString (clear_search url)
        \<and> baseUrl c = scheme url @ '':'' @ authority url
                        @ (if opaque_path url \<and> fragment url = None
                           then strip_trailing_spaces (pathname url) else pathname url)
                        @ (case fragment url of None \<Rightarrow> [] | Some f \<Rightarrow> ''#'' @ f))
     \<and> (type' c = external \<and> hostname url \<noteq> None \<and> \<not> opaque_path url
          \<and> username url = [] \<and> password url = [] \<and> fragment url = None
        \<longrightarrow> baseUrl c = spec_baseUrl url)"
proof -
  have parts: "scheme (clear_search url) = scheme url"
    "query (clear_search url) = None"
    "fragment (clear_search url) = fragment url"
    "pathname (clear_search url) =
       (if opaque_path url \<and> fragment url = None
        then strip_trailing_spaces (pathname url) else pathname url)"
    by (simp_all add: clear_search_def Let_def)
  have serialized: "toString (clear_search url) =
      scheme url @ '':'' @ authority url
        @ (if opaque_path url \<and> fragment url = None
           then strip_trailing_spaces (pathname url) else pathname url)
        @ (case fragment url of None \<Rightarrow> [] | Some f \<Rightarrow> ''#'' @ f)"
    unfolding toString_def authority_clear_search parts by simp
  have plain: "toString (clear_search url) = spec_baseUrl url"
    if "hostname url \<noteq> None" "\<not> opaque_path url" "username url = []" "password url = []"
      "fragment url = None"
    using that
    by (auto simp add: serialized spec_baseUrl_def authority_def credentials_def host_def
        split: option.splits)
  have vendor: "baseUrl c = ''https://edge-config.vercel.com/'' @ id' c
                \<and> at (split_str CHR ''/'' (pathname url)) 1 = Some (id' c)"
    if "type' c = vercel"
    using that assms(2)
    by (auto simp add: parseConnectionString_def
        parseVercel_of_url [where new_URL = new_URL, OF assms(1)]
        parseExternal_of_url [where new_URL = new_URL, OF assms(1)]
        split: option.splits if_splits)
  have extern: "baseUrl c = toString (clear_search url)"
    if "type' c = external"
    using that assms(2)
    by (auto simp add: parseConnectionString_def
        parseVercel_of_url [where new_URL = new_URL, OF assms(1)]
        parseExternal_of_url [where new_URL = new_URL, OF assms(1)]
        split: option.splits if_splits)
  from vendor extern serialized plain show ?thesis
    by metis
qed

theorem parseConnectionString_baseUrl_witness:
  "parseConnectionString new_URL_sample ''https://edge-config.vercel.com/ecfg_abc?token=tkn123''
     = Inr (Some \<lparr>type' = vercel, baseUrl = ''https://edge-config.vercel.com/ecfg_abc'',
                  id' = ''ecfg_abc'', version = ''1'', token = ''tkn123''\<rparr>)
   \<and> ''https://edge-config.vercel.com/ecfg_abc'' = ''https://edge-config.vercel.com/'' @ ''ecfg_abc''
   \<and> parseConnectionString new_URL_sample ''https://example.com/?id=abc123&token=tkn123''
     = Inr (Some \<lparr>type' = external, baseUrl = ''https://example.com/'',
                  id' = ''abc123'', version = ''1'', token = ''tkn123''\<rparr>)
   \<and> ''https://example.com/''
     = spec_baseUrl (https_URL ''example.com'' ''/'' (Some ''id=abc123&token=tkn123'')
                       [(''id'', ''abc123''), (''token'', ''tkn123'')] None)
   \<and> parseConnectionString new_URL_sample ''foo:bar ?id=a&token=t''
     = Inr (Some \<lparr>type' = external, baseUrl = ''foo:bar'',
                  id' = ''a'', version = ''1'', token = ''t''\<rparr>)
   \<and> ''foo:bar'' = ''foo'' @ '':'' @ strip_trailing_spaces ''bar ''"
proof -
  have v: "parseConnectionString new_URL_sample
             ''https://edge-config.vercel.com/ecfg_abc?token=tkn123''
           = Inr (Some \<lparr>type' = vercel, baseUrl = ''https://edge-config.vercel.com/ecfg_abc'',
                        id' = ''ecfg_abc'', version = ''1'', token = ''tkn123''\<rparr>)"
    by (simp add: parseConnectionString_def
        parseVercel_of_url [where new_URL = new_URL_sample, OF sample_vendor] URL_getters)
  have x: "parseConnectionString new_URL_sample ''https://example.com/?id=abc123&token=tkn123''
           = Inr (Some \<lparr>type' = external, baseUrl = ''https://example.com/'',
                        id' = ''abc123'', version = ''1'', token = ''tkn123''\<rparr>)"
    by (simp add: parseConnectionString_def
        parseVercel_of_url [where new_URL = new_URL_sample, OF sample_external]
        parseExternal_of_url [where new_URL = new_URL_sample, OF sample_external] URL_getters)
  have o: "parseConnectionString new_URL_sample ''foo:bar ?id=a&token=t''
           = Inr (Some \<lparr>type' = external, baseUrl = ''foo:bar'',
                        id' = ''a'', version = ''1'', token = ''t''\<rparr>)"
    by (simp add: parseConnectionString_def
        parseVercel_of_url [where new_URL = new_URL_sample, OF sample_opaque]
        parseExternal_of_url [where new_URL = new_URL_sample, OF sample_opaque] URL_getters)
  from parseConnectionString_baseUrl [where new_URL = new_URL_sample, OF sample_vendor v]
    parseConnectionString_baseUrl [where new_URL = new_URL_sample, OF sample_external x]
    parseConnectionString_baseUrl [where new_URL = new_URL_sample, OF sample_opaque o]
    v x o
  show ?thesis
    by (simp add: spec_baseUrl_def URL_getters)
qed

subsection \<open>Parsing a Connection's reconstructed string\<close>




end
